theory Spec2Isabelle
  imports Complex_Main "HOL-Library.Sublist"
begin

section \<open>The hybrid router (services/hybrid\_router.py)\<close>

text \<open>
  Python floats are modelled as exact rationals (\<open>rat\<close>): the cost table, the cost
  estimate, latencies and the thresholds of the recommendation rules are computed without
  rounding. Python's unbounded integers are \<open>int\<close>. Wall-clock readings
  (\<open>datetime.now()\<close>) are inputs of the functions that take them. The one float
  operation of the router that can raise, the division of the cost estimate, has its
  raise modelled with \<open>execute\<close>, the function it escapes from.
\<close>

subsection \<open>Enumerations and records\<close>

datatype DataSensitivity = PUBLIC | INTERNAL | CONFIDENTIAL | RESTRICTED

datatype QueryComplexity = SIMPLE | MODERATE | COMPLEX

datatype Backend = CORTEX | MISTRAL | CLAUDE_HAIKU | CLAUDE_SONNET | CLAUDE_OPUS

text \<open>The \<open>.value\<close> of a \<open>Backend\<close> member.\<close>

fun Backend_value :: "Backend \<Rightarrow> string" where
  "Backend_value CORTEX = ''cortex''"
| "Backend_value MISTRAL = ''mistral''"
| "Backend_value CLAUDE_HAIKU = ''claude_haiku''"
| "Backend_value CLAUDE_SONNET = ''claude_sonnet''"
| "Backend_value CLAUDE_OPUS = ''claude_opus''"

record QueryContext =
  question :: string
  data_source :: string
  sensitivity :: DataSensitivity
  complexity :: QueryComplexity
  requires_iteration :: bool
  estimated_tokens :: int
  user_preference :: "Backend option"

record RoutingDecision =
  backend :: Backend
  reason :: string
  estimated_cost :: rat
  data_exposure :: string

text \<open>
  The three clients are external collaborators. A client is the one method the router
  calls on it; a call either returns a result (\<open>Inr\<close>) or raises an exception, of which
  \<open>execute\<close> keeps only \<open>str(e)\<close> (\<open>Inl\<close>). A client that was not passed is \<open>None\<close>.
  The exceptions of a client are those of class \<open>Exception\<close>, which \<open>execute\<close> catches;
  an interrupt of the interpreter is not one.
\<close>

type_synonym 'r cortex_client = "string \<Rightarrow> int \<Rightarrow> string + 'r"
  \<comment> \<open>\<open>execute_with_iteration(question, max_iterations)\<close>\<close>

type_synonym 'r mistral_client = "string \<Rightarrow> bool \<Rightarrow> string + 'r"
  \<comment> \<open>\<open>generate_with_refinement(question, include_data)\<close>\<close>

type_synonym 'r claude_client = "string \<Rightarrow> string \<Rightarrow> string \<Rightarrow> string + 'r"
  \<comment> \<open>\<open>generate(question, model, exposure_level)\<close>\<close>

record 'r HybridRouter =
  cortex :: "'r cortex_client option"
  mistral :: "'r mistral_client option"
  claude :: "'r claude_client option"
  enable_cortex :: bool
  enable_mistral :: bool

definition HybridRouter_init ::
  "'r cortex_client option \<Rightarrow> 'r mistral_client option \<Rightarrow> 'r claude_client option
     \<Rightarrow> bool \<Rightarrow> bool \<Rightarrow> 'r HybridRouter" where
  "HybridRouter_init cortex_client mistral_client claude_client en_cortex en_mistral =
     \<lparr> cortex = cortex_client,
       mistral = mistral_client,
       claude = claude_client,
       enable_cortex = (en_cortex \<and> cortex_client \<noteq> None),
       enable_mistral = (en_mistral \<and> mistral_client \<noteq> None) \<rparr>"

subsection \<open>Cost model\<close>

text \<open>Cost per 1000 tokens.\<close>

fun COSTS :: "Backend \<Rightarrow> rat" where
  "COSTS CORTEX = 0.003"
| "COSTS MISTRAL = 0.001"
| "COSTS CLAUDE_HAIKU = 0.0003"
| "COSTS CLAUDE_SONNET = 0.003"
| "COSTS CLAUDE_OPUS = 0.015"

definition estimate_cost :: "Backend \<Rightarrow> int \<Rightarrow> rat" where
  "estimate_cost b tokens =
     (let tokens = (if tokens = 0 then 1000 else tokens)
      in (of_int tokens / 1000) * COSTS b)"

subsection \<open>Availability and exposure\<close>

definition is_backend_available :: "'r HybridRouter \<Rightarrow> Backend \<Rightarrow> bool" where
  "is_backend_available r b =
     (if b = CORTEX then enable_cortex r
      else if b = MISTRAL then enable_mistral r
      else claude r \<noteq> None)"

definition get_data_exposure :: "Backend \<Rightarrow> DataSensitivity \<Rightarrow> string" where
  "get_data_exposure b s =
     (if b \<in> set [CORTEX, MISTRAL] then ''full''
      else if s \<in> set [CONFIDENTIAL, RESTRICTED] then ''schema_only''
      else if s = INTERNAL then ''aggregated''
      else ''full'')"

subsection \<open>Routing\<close>

text \<open>
  The rules of \<open>route\<close> after the user-preference check. In rule 2 both the branch
  without iteration and the fallback with iteration (which only logs a warning) run on
  to the same schema-only API decision, bound to \<open>api\<close> here.
\<close>

definition route_rules :: "'r HybridRouter \<Rightarrow> QueryContext \<Rightarrow> RoutingDecision" where
  "route_rules r c =
     (if data_source c = ''snowflake'' \<and> requires_iteration c \<and> enable_cortex r then
        \<lparr> backend = CORTEX,
          reason = ''Snowflake data with iteration - Cortex allows safe full data access'',
          estimated_cost = estimate_cost CORTEX (estimated_tokens c),
          data_exposure = ''full'' \<rparr>
      else if sensitivity c \<in> set [CONFIDENTIAL, RESTRICTED] then
        (let api =
           (let b = (if complexity c = COMPLEX then CLAUDE_SONNET else CLAUDE_HAIKU)
            in \<lparr> backend = b,
                 reason = ''Sensitive data, no iteration - schema-only API call'',
                 estimated_cost = estimate_cost b (estimated_tokens c),
                 data_exposure = ''schema_only'' \<rparr>)
         in if requires_iteration c then
              (if enable_mistral r then
                 \<lparr> backend = MISTRAL,
                   reason = ''Sensitive data requiring iteration - only self-hosted is safe'',
                   estimated_cost = estimate_cost MISTRAL (estimated_tokens c),
                   data_exposure = ''full'' \<rparr>
               else if enable_cortex r \<and> data_source c = ''snowflake'' then
                 \<lparr> backend = CORTEX,
                   reason = ''Sensitive Snowflake data with iteration - Cortex is safe'',
                   estimated_cost = estimate_cost CORTEX (estimated_tokens c),
                   data_exposure = ''full'' \<rparr>
               else api)
            else api)
      else if complexity c = SIMPLE then
        (if data_source c = ''snowflake'' \<and> enable_cortex r then
           \<lparr> backend = CORTEX,
             reason = ''Simple query in Snowflake - native Cortex is efficient'',
             estimated_cost = estimate_cost CORTEX (estimated_tokens c),
             data_exposure = ''full'' \<rparr>
         else
           \<lparr> backend = CLAUDE_HAIKU,
             reason = ''Simple query - Haiku is fastest and cheapest'',
             estimated_cost = estimate_cost CLAUDE_HAIKU (estimated_tokens c),
             data_exposure = ''schema_only'' \<rparr>)
      else if complexity c = COMPLEX then
        (if data_source c = ''snowflake'' \<and> enable_cortex r then
           \<lparr> backend = CORTEX,
             reason = ''Complex Snowflake analysis - Cortex with Claude for accuracy + data access'',
             estimated_cost = estimate_cost CORTEX (estimated_tokens c),
             data_exposure = ''full'' \<rparr>
         else
           \<lparr> backend = CLAUDE_OPUS,
             reason = ''Complex analysis - Opus 4.5 for highest accuracy (95%+)'',
             estimated_cost = estimate_cost CLAUDE_OPUS (estimated_tokens c),
             data_exposure = (if requires_iteration c then ''aggregated'' else ''schema_only'') \<rparr>)
      else
        \<lparr> backend = CLAUDE_SONNET,
          reason = ''Default balanced option - good accuracy and cost'',
          estimated_cost = estimate_cost CLAUDE_SONNET (estimated_tokens c),
          data_exposure = ''schema_only'' \<rparr>)"

text \<open>
  \<open>route\<close>: an available user preference is honoured first; a missing or unavailable
  one falls through to the rules. (Every \<open>Backend\<close> member is truthy, so
  \<open>if context.user_preference\<close> tests for \<open>None\<close>.)
\<close>

definition route :: "'r HybridRouter \<Rightarrow> QueryContext \<Rightarrow> RoutingDecision" where
  "route r c =
     (case user_preference c of
        Some p \<Rightarrow>
          (if is_backend_available r p then
             \<lparr> backend = p,
               reason = ''User preference'',
               estimated_cost = estimate_cost p (estimated_tokens c),
               data_exposure = get_data_exposure p (sensitivity c) \<rparr>
           else route_rules r c)
      | None \<Rightarrow> route_rules r c)"

subsection \<open>Execution\<close>

fun Backend_name :: "Backend \<Rightarrow> string" where
  "Backend_name CORTEX = ''CORTEX''"
| "Backend_name MISTRAL = ''MISTRAL''"
| "Backend_name CLAUDE_HAIKU = ''CLAUDE_HAIKU''"
| "Backend_name CLAUDE_SONNET = ''CLAUDE_SONNET''"
| "Backend_name CLAUDE_OPUS = ''CLAUDE_OPUS''"

text \<open>\<open>repr\<close> of a member, which is what \<open>str\<close> of a \<open>KeyError\<close> on it shows.\<close>

definition Backend_repr :: "Backend \<Rightarrow> string" where
  "Backend_repr b =
     ''<Backend.'' @ Backend_name b @ '': '' @ [CHR 0x27] @ Backend_value b @ [CHR 0x27] @ ''>''"

fun model_map :: "Backend \<Rightarrow> string option" where
  "model_map CLAUDE_HAIKU = Some ''claude-3-5-haiku-20241022''"
| "model_map CLAUDE_SONNET = Some ''claude-sonnet-4-20250514''"
| "model_map CLAUDE_OPUS = Some ''claude-opus-4-20250514''"
| "model_map _ = None"

definition execute_cortex ::
  "'r HybridRouter \<Rightarrow> QueryContext \<Rightarrow> RoutingDecision \<Rightarrow> string + 'r" where
  "execute_cortex r c d =
     (case cortex r of
        None \<Rightarrow> Inl ''Cortex client not configured''
      | Some client \<Rightarrow> client (question c) (if requires_iteration c then 3 else 1))"

definition execute_mistral ::
  "'r HybridRouter \<Rightarrow> QueryContext \<Rightarrow> RoutingDecision \<Rightarrow> string + 'r" where
  "execute_mistral r c d =
     (case mistral r of
        None \<Rightarrow> Inl ''Mistral client not configured''
      | Some client \<Rightarrow> client (question c) True)"

definition execute_claude ::
  "'r HybridRouter \<Rightarrow> QueryContext \<Rightarrow> RoutingDecision \<Rightarrow> string + 'r" where
  "execute_claude r c d =
     (case claude r of
        None \<Rightarrow> Inl ''Claude client not configured''
      | Some client \<Rightarrow>
          (case model_map (backend d) of
             None \<Rightarrow> Inl (Backend_repr (backend d))
           | Some model \<Rightarrow> client (question c) model (data_exposure d)))"

text \<open>
  The dictionary \<open>execute\<close> returns: with \<open>success = True\<close> the keys \<open>result\<close>,
  \<open>routing\<close> (\<open>backend\<close>, \<open>reason\<close>, \<open>data_exposure\<close>, \<open>estimated_cost\<close>) and
  \<open>latency_ms\<close>; with \<open>success = False\<close> the keys \<open>error\<close> and \<open>routing\<close>
  (\<open>backend\<close>, \<open>reason\<close>).
\<close>

datatype 'r outcome =
    Succeeded 'r string string string rat rat
  | Failed string string string


text \<open>A \<open>datetime\<close> is its number of seconds since the epoch.\<close>

type_synonym datetime = rat

text \<open>The body of the \<open>try\<close> block up to the adapter's return: the dispatch on the backend.\<close>

definition dispatch ::
  "'r HybridRouter \<Rightarrow> QueryContext \<Rightarrow> RoutingDecision \<Rightarrow> string + 'r" where
  "dispatch r c decision =
     (if backend decision = CORTEX then execute_cortex r c decision
      else if backend decision = MISTRAL then execute_mistral r c decision
      else execute_claude r c decision)"

section \<open>Metrics (services/metrics.py)\<close>

subsection \<open>The store\<close>

text \<open>
  The fields of \<open>QueryMetric\<close> that share a name with a field of \<open>QueryContext\<close> or
  \<open>RoutingDecision\<close> carry the suffix \<open>_m\<close>.
\<close>

record QueryMetric =
  timestamp :: datetime
  question_m :: string
  sensitivity_m :: string
  complexity_m :: string
  backend_m :: string
  success :: bool
  iterations :: int
  latency_ms :: rat
  estimated_cost_m :: rat
  actual_tokens :: "int option"
  user_id :: "string option"
  session_id :: "string option"

text \<open>
  \<open>HybridMetrics\<close>: the list \<open>queries\<close>, the bound \<open>max_history\<close> and the counters
  \<open>_total_cost\<close>, \<open>_query_count\<close>, \<open>_success_count\<close>.
\<close>

record HybridMetrics =
  queries :: "QueryMetric list"
  max_history :: int
  total_cost :: rat
  query_count :: int
  success_count :: int

definition HybridMetrics_init :: "int \<Rightarrow> HybridMetrics" where
  "HybridMetrics_init mh =
     \<lparr> queries = [], max_history = mh, total_cost = 0, query_count = 0, success_count = 0 \<rparr>"

text \<open>
  The slice \<open>xs[s:]\<close>: a negative start counts from the end and is clamped at the front,
  a start beyond the end gives the empty list. \<open>xs[-0:]\<close> is \<open>xs[0:]\<close>, the whole list.
\<close>

definition slice_from :: "'a list \<Rightarrow> int \<Rightarrow> 'a list" where
  "slice_from xs s =
     (let n = int (length xs);
          i = (if s < 0 then max (n + s) 0 else min s n)
      in drop (nat i) xs)"

text \<open>\<open>log_query\<close>, given the reading \<open>now\<close> of the clock; it returns the metric and the new store.\<close>

definition log_query ::
  "HybridMetrics \<Rightarrow> datetime \<Rightarrow> string \<Rightarrow> string \<Rightarrow> string \<Rightarrow> string \<Rightarrow> bool \<Rightarrow> int \<Rightarrow> rat
     \<Rightarrow> rat \<Rightarrow> int option \<Rightarrow> string option \<Rightarrow> string option \<Rightarrow> QueryMetric \<times> HybridMetrics" where
  "log_query hm now q sens compl bk succ iters lat cost toks uid sid =
     (let metric = \<lparr> timestamp = now, question_m = q, sensitivity_m = sens,
                     complexity_m = compl, backend_m = bk, success = succ,
                     iterations = iters, latency_ms = lat, estimated_cost_m = cost,
                     actual_tokens = toks, user_id = uid, session_id = sid \<rparr>;
          qs = queries hm @ [metric];
          hm1 = hm \<lparr> queries := qs,
                     query_count := query_count hm + 1,
                     total_cost := total_cost hm + cost,
                     success_count := (if succ then success_count hm + 1 else success_count hm) \<rparr>;
          hm2 = (if int (length (queries hm1)) > max_history hm1
                 then hm1 \<lparr> queries := slice_from (queries hm1) (- max_history hm1) \<rparr>
                 else hm1)
      in (metric, hm2))"

text \<open>
  Logging a sequence of executions: entry \<open>m\<close> stands for the call of \<open>log_query\<close> at
  time \<open>timestamp m\<close> with the other fields of \<open>m\<close> as arguments.
\<close>

definition log_entry :: "HybridMetrics \<Rightarrow> QueryMetric \<Rightarrow> HybridMetrics" where
  "log_entry hm m =
     snd (log_query hm (timestamp m) (question_m m) (sensitivity_m m) (complexity_m m)
            (backend_m m) (success m) (iterations m) (latency_ms m) (estimated_cost_m m)
            (actual_tokens m) (user_id m) (session_id m))"

definition log_all :: "HybridMetrics \<Rightarrow> QueryMetric list \<Rightarrow> HybridMetrics" where
  "log_all hm ms = foldl log_entry hm ms"

subsection \<open>Execution in the running process\<close>

text \<open>
  What the code of the two modules can write to: the records handed to the module
  logger, and the telemetry store. A function that logs takes this state and returns it
  updated.
\<close>

datatype level = INFO | WARNING | ERROR

type_synonym log_record = "level \<times> string"

record process =
  logged :: "log_record list"
  telemetry :: HybridMetrics

text \<open>An exception that leaves \<open>execute\<close> uncaught.\<close>

datatype escaped = OverflowError

text \<open>
  \<open>_estimate_cost\<close> raises where its division \<open>tokens / 1000\<close> does. The true division
  of two integers gives the float nearest to the quotient and raises \<open>OverflowError\<close>
  when that is beyond the largest float: when the magnitude of the quotient reaches
  \<open>2^1024 - 2^970\<close>, half a step above the largest float. The product with the unit
  price, a float below 1, raises nothing.
\<close>

definition estimate_cost_raises :: "int \<Rightarrow> bool" where
  "estimate_cost_raises tokens =
     (let tokens = (if tokens = 0 then 1000 else tokens)
      in \<bar>of_int tokens / 1000 :: rat\<bar> \<ge> 2 ^ 1024 - 2 ^ 970)"

text \<open>
  The one record \<open>route\<close> logs: the warning of rule 2, on the path where sensitive data
  needs iteration and neither Mistral nor Cortex on Snowflake data is there.
\<close>

definition route_warning :: "'r HybridRouter \<Rightarrow> QueryContext \<Rightarrow> log_record list" where
  "route_warning r c =
     (if (case user_preference c of Some p \<Rightarrow> is_backend_available r p | None \<Rightarrow> False) then []
      else if data_source c = ''snowflake'' \<and> requires_iteration c \<and> enable_cortex r then []
      else if sensitivity c \<in> set [CONFIDENTIAL, RESTRICTED] then
        (if requires_iteration c then
           (if enable_mistral r then []
            else if enable_cortex r \<and> data_source c = ''snowflake'' then []
            else [(WARNING,
                   ''Sensitive data needs iteration but no safe backend available. ''
                   @ ''Using schema-only with API (limited accuracy).'')])
         else [])
      else [])"

text \<open>
  A call of \<open>route\<close> as the running code makes it. Every path of \<open>route\<close> builds its
  decision with one call of \<open>_estimate_cost\<close> on \<open>context.estimated_tokens\<close>, after
  the warning if there is one; where that call raises, so does \<open>route\<close>.
\<close>

definition route_call ::
  "'r HybridRouter \<Rightarrow> QueryContext \<Rightarrow> process \<Rightarrow> (escaped + RoutingDecision) \<times> process" where
  "route_call r c w =
     (let w = w \<lparr> logged := logged w @ route_warning r c \<rparr>
      in if estimate_cost_raises (estimated_tokens c) then (Inl OverflowError, w)
         else (Inr (route r c), w))"

text \<open>
  \<open>execute\<close>, given the two readings of the clock: \<open>start_time\<close> before the dispatch and
  \<open>end_time\<close> after a call that returned. The call of \<open>route\<close> stands before the
  \<open>try\<close> block, so what it raises leaves \<open>execute\<close>; what the dispatch raises is
  caught, logged and returned as the failed outcome.
\<close>

definition execute ::
  "'r HybridRouter \<Rightarrow> datetime \<Rightarrow> datetime \<Rightarrow> QueryContext \<Rightarrow> process
     \<Rightarrow> (escaped + 'r outcome) \<times> process" where
  "execute r start_time end_time c w =
     (case route_call r c w of
        (Inl exc, w) \<Rightarrow> (Inl exc, w)
      | (Inr decision, w) \<Rightarrow>
          (let w = w \<lparr> logged := logged w
                         @ [(INFO, ''Routing to '' @ Backend_value (backend decision)
                                     @ '': '' @ reason decision)] \<rparr>
           in case dispatch r c decision of
                Inr result \<Rightarrow>
                  (let latency_ms = (end_time - start_time) * 1000
                   in (Inr (Succeeded result (Backend_value (backend decision)) (reason decision)
                              (data_exposure decision) (estimated_cost decision) latency_ms),
                       w))
              | Inl e \<Rightarrow>
                  (Inr (Failed e (Backend_value (backend decision)) (reason decision)),
                   w \<lparr> logged := logged w @ [(ERROR, ''Execution failed: '' @ e)] \<rparr>)))"

subsection \<open>Recommendations\<close>

text \<open>
  An f-string is kept as its pieces: literal text, an interpolated integer, and a number
  formatted with a fixed count of decimals (\<open>{x:.2f}\<close> is \<open>Fixed 2 x\<close>). The text is
  the concatenation of the pieces; an interpolated string is a literal piece.
\<close>

datatype piece = Lit string | Num int | Fixed nat rat

type_synonym fstring = "piece list"

record Recommendation =
  type :: string
  message :: fstring
  impact :: fstring

datatype py_error = ValueError | ZeroDivisionError

text \<open>
  \<open>max(items, key=f)\<close>: \<open>ValueError\<close> on an empty sequence, otherwise the first item whose
  key no later item exceeds.
\<close>

fun py_max :: "('a \<Rightarrow> rat) \<Rightarrow> 'a list \<Rightarrow> py_error + 'a" where
  "py_max key [] = Inl ValueError"
| "py_max key (x # xs) = Inr (foldl (\<lambda>best y. if key y > key best then y else best) x xs)"

text \<open>
  A \<open>defaultdict\<close> is the list of its items in insertion order.
  \<open>d[k].append(v)\<close> on a \<open>defaultdict(list)\<close>:
\<close>

fun dict_append :: "(string \<times> rat list) list \<Rightarrow> string \<Rightarrow> rat \<Rightarrow> (string \<times> rat list) list" where
  "dict_append [] k v = [(k, [v])]"
| "dict_append ((k', vs) # d) k v =
     (if k' = k then (k', vs @ [v]) # d else (k', vs) # dict_append d k v)"

text \<open>\<open>d[k] += v\<close> on a \<open>defaultdict(float)\<close>:\<close>

fun dict_add :: "(string \<times> rat) list \<Rightarrow> string \<Rightarrow> rat \<Rightarrow> (string \<times> rat) list" where
  "dict_add [] k v = [(k, 0 + v)]"
| "dict_add ((k', w) # d) k v =
     (if k' = k then (k', w + v) # d else (k', w) # dict_add d k v)"

text \<open>
  The rules of \<open>get_recommendations\<close>, in the order of the source; each gives the
  recommendations it appends, or the exception it raises. \<open>simple_queries\<close> and
  \<open>expensive_simple\<close> are the two list comprehensions of the first rule. A division
  whose divisor the code has just tested to be non-zero is written as a plain division;
  the two divisions by \<open>len(recent)\<close> raise \<open>ZeroDivisionError\<close> on an empty window.
\<close>

definition simple_queries :: "QueryMetric list \<Rightarrow> QueryMetric list" where
  "simple_queries qs = filter (\<lambda>q. complexity_m q = ''simple'') qs"

definition expensive_simple :: "QueryMetric list \<Rightarrow> QueryMetric list" where
  "expensive_simple qs =
     filter (\<lambda>q. backend_m q \<in> set [''claude_opus'', ''claude_sonnet'']) (simple_queries qs)"

definition rule_cost_optimization :: "QueryMetric list \<Rightarrow> Recommendation list" where
  "rule_cost_optimization qs =
     (if simple_queries qs \<noteq> [] then
        (if of_nat (length (expensive_simple qs)) > of_nat (length (simple_queries qs)) * (0.3 :: rat) then
           (let potential_savings = sum_list (map estimated_cost_m (expensive_simple qs)) * 0.8
            in [\<lparr> type = ''cost_optimization'',
                   message =
                     [Num (int (length (expensive_simple qs))), Lit '' simple queries ('',
                      Fixed 0 (of_nat (length (expensive_simple qs)) / of_nat (length (simple_queries qs)) * 100),
                      Lit ''%) '',
                      Lit ''are using expensive models. Route to Haiku or Cortex to save ~80%.''],
                   impact = [Lit ''~$'', Fixed 2 potential_savings, Lit '' potential savings''] \<rparr>])
         else [])
      else [])"

definition rule_data_privacy :: "QueryMetric list \<Rightarrow> Recommendation list" where
  "rule_data_privacy qs =
     (let iterative_api = filter (\<lambda>q. iterations q > 1 \<and> sublist ''claude'' (backend_m q)) qs
      in if iterative_api \<noteq> [] then
           [\<lparr> type = ''data_privacy'',
               message =
                 [Num (int (length iterative_api)), Lit '' queries required iteration with external API. '',
                  Lit ''Consider Cortex or self-hosted for these to enable safe full data access '',
                  Lit ''and improve accuracy.''],
               impact = [Lit ''Better accuracy + data privacy''] \<rparr>]
         else [])"

definition rule_reliability :: "QueryMetric list \<Rightarrow> py_error + Recommendation list" where
  "rule_reliability recent =
     (if recent = [] then Inl ZeroDivisionError
      else
        (let failure_rate =
               of_nat (length (filter (\<lambda>q. \<not> success q) recent)) / (of_nat (length recent) :: rat)
         in if failure_rate > 0.1 then
              Inr [\<lparr> type = ''reliability'',
                      message =
                        [Lit ''Failure rate is '', Fixed 1 (failure_rate * 100), Lit ''% (last '',
                         Num (int (length recent)), Lit '' queries). '',
                         Lit ''Review error patterns and consider adding retries or fallbacks.''],
                      impact = [Lit ''Improved reliability''] \<rparr>]
            else Inr []))"

text \<open>
  The key of the slowest backend: the mean of the latencies collected for it. Every list
  in \<open>slow_backends\<close> is created by an append, so the length it divides by is positive.
\<close>

definition mean_latency :: "string \<times> rat list \<Rightarrow> rat" where
  "mean_latency x = sum_list (snd x) / of_nat (length (snd x))"

definition rule_performance :: "QueryMetric list \<Rightarrow> py_error + Recommendation list" where
  "rule_performance recent =
     (if recent = [] then Inl ZeroDivisionError
      else
        (let avg_latency = sum_list (map latency_ms recent) / of_nat (length recent)
         in if avg_latency > 5000 then
              (let slow_backends =
                     foldl (\<lambda>d q. if latency_ms q > 5000 then dict_append d (backend_m q) (latency_ms q) else d)
                       [] recent
               in case py_max mean_latency slow_backends of
                    Inl e \<Rightarrow> Inl e
                  | Inr slowest \<Rightarrow>
                      Inr [\<lparr> type = ''performance'',
                              message =
                                [Lit ''Average latency is '', Fixed 1 (avg_latency / 1000), Lit ''s. '',
                                 Lit (fst slowest), Lit '' is slowest with avg '',
                                 Fixed 1 (sum_list (snd slowest) / of_nat (length (snd slowest)) / 1000),
                                 Lit ''s. '',
                                 Lit ''Consider caching or using faster models for common queries.''],
                              impact = [Lit ''Better user experience''] \<rparr>])
            else Inr []))"

definition rule_cost_distribution :: "HybridMetrics \<Rightarrow> py_error + Recommendation list" where
  "rule_cost_distribution hm =
     (if total_cost hm > 0 then
        (let cost_by_backend =
               foldl (\<lambda>d q. dict_add d (backend_m q) (estimated_cost_m q)) [] (queries hm)
         in case py_max snd cost_by_backend of
              Inl e \<Rightarrow> Inl e
            | Inr top_cost_backend \<Rightarrow>
                (if snd top_cost_backend > total_cost hm * 0.7 then
                   Inr [\<lparr> type = ''cost_distribution'',
                           message =
                             [Lit (fst top_cost_backend), Lit '' accounts for '',
                              Fixed 0 (snd top_cost_backend / total_cost hm * 100), Lit ''% '',
                              Lit ''of total cost ($'', Fixed 2 (snd top_cost_backend), Lit ''). '',
                              Lit ''Consider load balancing or using cheaper alternatives for some queries.''],
                           impact = [Lit ''Cost optimization opportunity''] \<rparr>]
                 else Inr []))
      else Inr [])"

definition get_recommendations :: "HybridMetrics \<Rightarrow> py_error + Recommendation list" where
  "get_recommendations hm =
     (if length (queries hm) < 10 then
        Inr [\<lparr> type = ''info'',
                message = [Lit ''Need more data for recommendations''],
                impact = [Lit ''N/A''] \<rparr>]
      else
        (let recommendations = rule_cost_optimization (queries hm) @ rule_data_privacy (queries hm);
             recent = (if length (queries hm) \<ge> 100 then slice_from (queries hm) (- 100)
                       else queries hm)
         in case rule_reliability recent of
              Inl e \<Rightarrow> Inl e
            | Inr rel \<Rightarrow>
                (case rule_performance recent of
                   Inl e \<Rightarrow> Inl e
                 | Inr perf \<Rightarrow>
                     (case rule_cost_distribution hm of
                        Inl e \<Rightarrow> Inl e
                      | Inr distr \<Rightarrow>
                          (let recommendations = recommendations @ rel @ perf @ distr
                           in if recommendations = [] then
                                Inr [\<lparr> type = ''info'',
                                        message =
                                          [Lit ''No optimization opportunities identified. Current routing is efficient.''],
                                        impact = [Lit ''N/A''] \<rparr>]
                              else Inr recommendations)))))"

section \<open>Concrete inputs\<close>

text \<open>
  The router of the module's own demonstration (\<open>__main__\<close>): no client is passed, so
  no backend is available. Its third scenario is \<open>demo_context\<close>.
\<close>

definition demo_router :: "unit HybridRouter" where
  "demo_router = HybridRouter_init None None None True True"

definition demo_context :: QueryContext where
  "demo_context =
     \<lparr> question = ''Generate DAX for YoY growth'', data_source = ''other'',
       sensitivity = PUBLIC, complexity = MODERATE, requires_iteration = False,
       estimated_tokens = 0, user_preference = None \<rparr>"

text \<open>A Claude client whose call returns, and one whose call raises.\<close>

definition answering_claude :: "unit claude_client" where
  "answering_claude q model expo = Inr ()"


definition claude_router :: "unit HybridRouter" where
  "claude_router = HybridRouter_init None None (Some answering_claude) True True"


text \<open>A process that has logged nothing, with the fresh store of the default capacity.\<close>

definition fresh_process :: process where
  "fresh_process = \<lparr> logged = [], telemetry = HybridMetrics_init 10000 \<rparr>"

text \<open>The second scenario of the demonstration, and the same context asking for Opus.\<close>

definition churn_context :: QueryContext where
  "churn_context =
     \<lparr> question = ''Analyze customer churn patterns'', data_source = ''snowflake'',
       sensitivity = CONFIDENTIAL, complexity = COMPLEX, requires_iteration = True,
       estimated_tokens = 0, user_preference = None \<rparr>"

definition opus_context :: QueryContext where
  "opus_context = churn_context \<lparr> user_preference := Some CLAUDE_OPUS \<rparr>"

text \<open>Log entries that differ in complexity, backend and cost.\<close>

definition sample_metric :: "string \<Rightarrow> string \<Rightarrow> rat \<Rightarrow> QueryMetric" where
  "sample_metric compl bk cost =
     \<lparr> timestamp = 0, question_m = ''Sample query'', sensitivity_m = ''internal'',
       complexity_m = compl, backend_m = bk, success = True, iterations = 1,
       latency_ms = 500, estimated_cost_m = cost,
       actual_tokens = None, user_id = None, session_id = None \<rparr>"

text \<open>Ten simple queries, three of them on Opus: exactly 30 percent on a premium backend.\<close>

definition store_3_of_10 :: HybridMetrics where
  "store_3_of_10 =
     log_all (HybridMetrics_init 10000)
       (replicate 3 (sample_metric ''simple'' ''claude_opus'' 1)
        @ replicate 3 (sample_metric ''simple'' ''cortex'' 1)
        @ replicate 4 (sample_metric ''simple'' ''claude_haiku'' 1))"

text \<open>Ten simple queries, four of them on Opus.\<close>

definition store_4_of_10 :: HybridMetrics where
  "store_4_of_10 =
     log_all (HybridMetrics_init 10000)
       (replicate 4 (sample_metric ''simple'' ''claude_opus'' 1)
        @ replicate 3 (sample_metric ''simple'' ''cortex'' 1)
        @ replicate 3 (sample_metric ''simple'' ''claude_haiku'' 1))"

section \<open>Properties of the router\<close>

subsection \<open>The decision of the rules, field by field\<close>

lemma backend_route_rules:
  "backend (route_rules r c) =
     (if data_source c = ''snowflake'' \<and> requires_iteration c \<and> enable_cortex r then CORTEX
      else if sensitivity c \<in> set [CONFIDENTIAL, RESTRICTED] then
        (if requires_iteration c then
           (if enable_mistral r then MISTRAL
            else if enable_cortex r \<and> data_source c = ''snowflake'' then CORTEX
            else if complexity c = COMPLEX then CLAUDE_SONNET else CLAUDE_HAIKU)
         else if complexity c = COMPLEX then CLAUDE_SONNET else CLAUDE_HAIKU)
      else if complexity c = SIMPLE then
        (if data_source c = ''snowflake'' \<and> enable_cortex r then CORTEX else CLAUDE_HAIKU)
      else if complexity c = COMPLEX then
        (if data_source c = ''snowflake'' \<and> enable_cortex r then CORTEX else CLAUDE_OPUS)
      else CLAUDE_SONNET)"
  unfolding route_rules_def Let_def
  by (simp only: if_distrib[where f=backend] RoutingDecision.simps split del: if_split cong: if_cong)

lemma exposure_route_rules:
  "data_exposure (route_rules r c) =
     (if data_source c = ''snowflake'' \<and> requires_iteration c \<and> enable_cortex r then ''full''
      else if sensitivity c \<in> set [CONFIDENTIAL, RESTRICTED] then
        (if requires_iteration c then
           (if enable_mistral r then ''full''
            else if enable_cortex r \<and> data_source c = ''snowflake'' then ''full''
            else ''schema_only'')
         else ''schema_only'')
      else if complexity c = SIMPLE then
        (if data_source c = ''snowflake'' \<and> enable_cortex r then ''full'' else ''schema_only'')
      else if complexity c = COMPLEX then
        (if data_source c = ''snowflake'' \<and> enable_cortex r then ''full''
         else if requires_iteration c then ''aggregated'' else ''schema_only'')
      else ''schema_only'')"
  unfolding route_rules_def Let_def
  by (simp only: if_distrib[where f=data_exposure] RoutingDecision.simps split del: if_split cong: if_cong)

text \<open>
  For sensitive data the rules end in rule 1 or rule 2: a full-access backend with full
  exposure, or Sonnet or Haiku with the schema only.
\<close>

lemma rules_sensitive:
  assumes "sensitivity c \<in> {CONFIDENTIAL, RESTRICTED}"
  shows "(backend (route_rules r c) \<in> {CORTEX, MISTRAL} \<and> data_exposure (route_rules r c) = ''full'')
       \<or> (backend (route_rules r c) \<in> {CLAUDE_SONNET, CLAUDE_HAIKU}
            \<and> data_exposure (route_rules r c) = ''schema_only'')"
  using assms
  by (cases "data_source c = ''snowflake''"; cases "requires_iteration c"; cases "enable_cortex r";
      cases "enable_mistral r"; cases "complexity c = COMPLEX")
     (auto simp add: backend_route_rules exposure_route_rules)

text \<open>The rules name Cortex or Mistral only where its flag is set.\<close>

lemma rules_available:
  "backend (route_rules r c) \<in> {CLAUDE_HAIKU, CLAUDE_SONNET, CLAUDE_OPUS} \<or>
   is_backend_available r (backend (route_rules r c))"
  by (cases "data_source c = ''snowflake''"; cases "requires_iteration c"; cases "enable_cortex r";
      cases "enable_mistral r"; cases "complexity c"; cases "sensitivity c")
     (simp_all add: backend_route_rules is_backend_available_def)

lemma route_cases:
  "(\<exists>p. user_preference c = Some p \<and> is_backend_available r p \<and>
        route r c = \<lparr> backend = p, reason = ''User preference'',
                      estimated_cost = estimate_cost p (estimated_tokens c),
                      data_exposure = get_data_exposure p (sensitivity c) \<rparr>)
   \<or> route r c = route_rules r c"
  by (cases "user_preference c") (simp_all add: route_def)

lemma claude_tier_available:
  "claude r \<noteq> None \<Longrightarrow> b \<in> {CLAUDE_HAIKU, CLAUDE_SONNET, CLAUDE_OPUS} \<Longrightarrow> is_backend_available r b"
  by (auto simp: is_backend_available_def)

subsection \<open>Execution and the telemetry store\<close>


text \<open>A token estimate of \<open>10^400\<close> overflows, and the exception leaves \<open>execute\<close>.\<close>

lemma huge_estimate_escapes:
  "estimate_cost_raises (10 ^ 400)
   \<and> fst (execute claude_router 0 1 (demo_context \<lparr> estimated_tokens := 10 ^ 400 \<rparr>) fresh_process)
       = Inl OverflowError"
proof -
  have "estimate_cost_raises (10 ^ 400)"
    by (simp add: estimate_cost_raises_def Let_def)
  then show ?thesis
    by (simp add: execute_def route_call_def Let_def demo_context_def)
qed

text \<open>The warning is logged exactly on the way to the schema-only fallback of rule 2.\<close>

lemma route_warning_fallback:
  assumes "route_warning r c \<noteq> []"
  shows "route r c = route_rules r c \<and> backend (route r c) \<in> {CLAUDE_SONNET, CLAUDE_HAIKU}
       \<and> data_exposure (route r c) = ''schema_only''"
proof -
  have np: "\<not> (case user_preference c of Some p \<Rightarrow> is_backend_available r p | None \<Rightarrow> False)"
    using assms by (auto simp: route_warning_def)
  then have eq: "route r c = route_rules r c"
    by (cases "user_preference c") (simp_all add: route_def)
  from assms np have "sensitivity c \<in> {CONFIDENTIAL, RESTRICTED}"
    and "requires_iteration c" and "\<not> enable_mistral r"
    and "\<not> (enable_cortex r \<and> data_source c = ''snowflake'')"
    by (auto simp: route_warning_def split: if_splits)
  then show ?thesis
    unfolding eq
    by (cases "complexity c = COMPLEX") (auto simp: backend_route_rules exposure_route_rules)
qed




subsection \<open>Availability of the chosen backend\<close>

text \<open>
  C2 (as stated, refuted). The claim: the decision of \<open>route\<close> names only a backend for which
  \<open>_is_backend_available\<close> is true. The router of the module's demonstration has no
  Claude client, and its third scenario is routed to Sonnet, which is not available.
\<close>

theorem route_names_unavailable_backend:
  "backend (route demo_router demo_context) = CLAUDE_SONNET
   \<and> \<not> is_backend_available demo_router (backend (route demo_router demo_context))"
  by (simp add: route_def backend_route_rules demo_router_def demo_context_def
        HybridRouter_init_def is_backend_available_def)

text \<open>
  C2 (amended). The decision of \<open>route\<close> names Cortex or Mistral only when that backend is
  available, and whenever a Claude client is configured the backend it names is
  available. (Without a Claude client the rules may still name a Claude tier.)
\<close>

theorem route_backend_available:
  "(backend (route r c) \<in> {CORTEX, MISTRAL} \<longrightarrow> is_backend_available r (backend (route r c)))
   \<and> (claude r \<noteq> None \<longrightarrow> is_backend_available r (backend (route r c)))"
proof -
  from route_cases [of c r] show ?thesis
  proof
    assume "\<exists>p. user_preference c = Some p \<and> is_backend_available r p \<and>
        route r c = \<lparr> backend = p, reason = ''User preference'',
                      estimated_cost = estimate_cost p (estimated_tokens c),
                      data_exposure = get_data_exposure p (sensitivity c) \<rparr>"
    then show ?thesis by auto
  next
    assume eq: "route r c = route_rules r c"
    from rules_available [of r c] show ?thesis
      unfolding eq using claude_tier_available [of r "backend (route_rules r c)"] by auto
  qed
qed

theorem route_backend_available_witness:
  "backend (route claude_router demo_context) = CLAUDE_SONNET
   \<and> claude claude_router \<noteq> None
   \<and> is_backend_available claude_router (backend (route claude_router demo_context))"
  using route_backend_available [of claude_router demo_context]
  by (simp add: route_def backend_route_rules claude_router_def demo_context_def
        HybridRouter_init_def)

subsection \<open>Exposure of sensitive data\<close>

text \<open>
  C3. For a context with sensitivity confidential or restricted that requires iteration,
  the exposure of the decision is \<open>full\<close> only if the chosen backend is Cortex or
  Mistral, and a Claude backend comes with \<open>schema_only\<close> or \<open>aggregated\<close> at most.
\<close>

theorem route_sensitive_exposure:
  assumes "sensitivity c \<in> {CONFIDENTIAL, RESTRICTED}" and "requires_iteration c"
  shows "(data_exposure (route r c) = ''full'' \<longrightarrow> backend (route r c) \<in> {CORTEX, MISTRAL})
       \<and> (backend (route r c) \<notin> {CORTEX, MISTRAL}
            \<longrightarrow> data_exposure (route r c) \<in> {''schema_only'', ''aggregated''})"
proof -
  from route_cases [of c r] show ?thesis
  proof
    assume "\<exists>p. user_preference c = Some p \<and> is_backend_available r p \<and>
        route r c = \<lparr> backend = p, reason = ''User preference'',
                      estimated_cost = estimate_cost p (estimated_tokens c),
                      data_exposure = get_data_exposure p (sensitivity c) \<rparr>"
    then obtain p where "backend (route r c) = p"
      and "data_exposure (route r c) = get_data_exposure p (sensitivity c)" by auto
    with assms(1) show ?thesis
      by (cases p) (auto simp: get_data_exposure_def)
  next
    assume eq: "route r c = route_rules r c"
    from rules_sensitive [OF assms(1), of r] show ?thesis
      unfolding eq by auto
  qed
qed

theorem route_sensitive_exposure_witness:
  "sensitivity opus_context \<in> {CONFIDENTIAL, RESTRICTED} \<and> requires_iteration opus_context
   \<and> backend (route claude_router opus_context) = CLAUDE_OPUS
   \<and> data_exposure (route claude_router opus_context) = ''schema_only''"
  using route_sensitive_exposure [of opus_context claude_router]
  by (simp add: route_def opus_context_def churn_context_def claude_router_def
        HybridRouter_init_def is_backend_available_def get_data_exposure_def)

subsection \<open>Cost estimate\<close>

text \<open>
  C4 (as stated, refuted). The claim: the estimated cost is
  \<open>(max(token_estimate, 1) / 1000)\<close> times the unit price. For a token estimate of 0 the
  code charges 1000 tokens, the full unit price, not one token.
\<close>

theorem estimate_cost_zero_not_one_token:
  "estimate_cost CORTEX 0 = 0.003
   \<and> estimate_cost CORTEX 0 \<noteq> (of_int (max 0 1) / 1000) * COSTS CORTEX"
  by (simp add: estimate_cost_def)

text \<open>
  C4 (amended). The estimated cost is \<open>(t / 1000)\<close> times the unit price of the backend,
  where a token estimate of 0 is replaced by 1000; for every token estimate of at least 1
  this is \<open>(max(t, 1) / 1000)\<close> times the unit price.
\<close>

theorem estimate_cost_formula:
  "estimate_cost b t = (of_int (if t = 0 then 1000 else t) / 1000) * COSTS b
   \<and> (1 \<le> t \<longrightarrow> estimate_cost b t = (of_int (max t 1) / 1000) * COSTS b)"
  by (auto simp: estimate_cost_def max_def)

theorem estimate_cost_formula_witness:
  "(1::int) \<le> 2500 \<and> estimate_cost CLAUDE_OPUS 2500 = (of_int (max 2500 1) / 1000) * COSTS CLAUDE_OPUS
   \<and> estimate_cost CLAUDE_OPUS 2500 = 0.0375"
  using estimate_cost_formula [of CLAUDE_OPUS 2500] by simp

text \<open>
  C5. For every backend the cost of a token estimate of 0 is the cost of 1000 tokens, and
  the cost of a non-negative token estimate is never negative.
\<close>

theorem estimate_cost_zero_default:
  "estimate_cost b 0 = estimate_cost b 1000 \<and> (0 \<le> t \<longrightarrow> 0 \<le> estimate_cost b t)"
  by (cases b) (auto simp: estimate_cost_def)

theorem estimate_cost_zero_default_witness:
  "estimate_cost MISTRAL 0 = estimate_cost MISTRAL 1000 \<and> (0::int) \<le> 42
   \<and> 0 \<le> estimate_cost MISTRAL 42"
  using estimate_cost_zero_default [of MISTRAL 42] by simp

subsection \<open>User preference\<close>

text \<open>
  C9 (as stated, refuted). The claim: honouring an available preference gives a reason
  string equal to \<open>user preference\<close>. The string of the code is \<open>User preference\<close>, with
  a capital letter.
\<close>

theorem route_preference_reason_capitalised:
  "user_preference opus_context = Some CLAUDE_OPUS
   \<and> is_backend_available claude_router CLAUDE_OPUS
   \<and> reason (route claude_router opus_context) \<noteq> ''user preference''"
  by (simp add: route_def opus_context_def churn_context_def claude_router_def
        HybridRouter_init_def is_backend_available_def)

text \<open>
  C9 (amended). For every context whose backend preference is set and available, the
  decision of \<open>route\<close> has the requested backend, the reason string \<open>User preference\<close>,
  and the exposure of the generic exposure rule.
\<close>

theorem route_honours_preference:
  assumes "user_preference c = Some p" and "is_backend_available r p"
  shows "backend (route r c) = p \<and> reason (route r c) = ''User preference''
       \<and> data_exposure (route r c) = get_data_exposure p (sensitivity c)"
  using assms by (simp add: route_def)

theorem route_honours_preference_witness:
  "user_preference opus_context = Some CLAUDE_OPUS
   \<and> is_backend_available claude_router CLAUDE_OPUS
   \<and> backend (route claude_router opus_context) = CLAUDE_OPUS
   \<and> reason (route claude_router opus_context) = ''User preference''
   \<and> data_exposure (route claude_router opus_context) = ''schema_only''"
proof -
  have p: "user_preference opus_context = Some CLAUDE_OPUS"
    by (simp add: opus_context_def)
  have a: "is_backend_available claude_router CLAUDE_OPUS"
    by (simp add: claude_router_def HybridRouter_init_def is_backend_available_def)
  have s: "get_data_exposure CLAUDE_OPUS (sensitivity opus_context) = ''schema_only''"
    by (simp add: get_data_exposure_def opus_context_def churn_context_def)
  from route_honours_preference [OF p a] p a s show ?thesis by simp
qed

subsection \<open>Sensitive data and the premium tier\<close>

text \<open>
  C10. For a context with sensitivity confidential or restricted and no backend
  preference, \<open>route\<close> never chooses Opus, whatever the availability flags: the decision
  names Cortex, Mistral, Sonnet or Haiku.
\<close>

theorem route_sensitive_never_opus:
  assumes "user_preference c = None" and "sensitivity c \<in> {CONFIDENTIAL, RESTRICTED}"
  shows "backend (route r c) \<noteq> CLAUDE_OPUS
       \<and> backend (route r c) \<in> {CORTEX, MISTRAL, CLAUDE_SONNET, CLAUDE_HAIKU}"
proof -
  have "route r c = route_rules r c"
    using assms(1) by (simp add: route_def)
  with rules_sensitive [OF assms(2), of r] show ?thesis by auto
qed

theorem route_sensitive_never_opus_witness:
  "user_preference churn_context = None
   \<and> sensitivity churn_context \<in> {CONFIDENTIAL, RESTRICTED}
   \<and> backend (route demo_router churn_context) = CLAUDE_SONNET"
  using route_sensitive_never_opus [of churn_context demo_router]
  by (simp add: route_def backend_route_rules churn_context_def demo_router_def
        HybridRouter_init_def)

section \<open>Properties of the metrics store\<close>

subsection \<open>The bounded history\<close>

lemma slice_from_neg: "1 \<le> k \<Longrightarrow> slice_from xs (- k) = drop (length xs - nat k) xs"
  by (auto simp: slice_from_def Let_def max_def intro: arg_cong[where f="\<lambda>n. drop n xs"])

lemma max_history_log_entry: "max_history (log_entry hm m) = max_history hm"
  by (simp add: log_entry_def log_query_def Let_def)

text \<open>One append keeps the last \<open>max_history\<close> entries of the extended list.\<close>

lemma queries_log_entry:
  assumes "1 \<le> max_history hm"
  shows "queries (log_entry hm m) =
           drop (length (queries hm @ [m]) - nat (max_history hm)) (queries hm @ [m])"
  using assms by (auto simp: log_entry_def log_query_def Let_def slice_from_neg)

lemma drop_drop_append:
  assumes "length xs - d \<le> k" and "d = length xs - k"
  shows "drop (length (drop d xs @ ys) - k) (drop d xs @ ys) = drop (length (xs @ ys) - k) (xs @ ys)"
proof (cases "length xs \<le> k")
  case True
  with assms show ?thesis by simp
next
  case False
  with assms have d: "d \<le> length xs" and l: "length xs - d = k" by auto
  define zs where "zs = xs @ ys"
  have e: "drop d xs @ ys = drop d zs" using d by (simp add: zs_def)
  have n1: "length (drop d zs) - k = length ys"
    using d l by (simp add: zs_def)
  have n2: "length zs - k = length ys + d"
    using d l by (simp add: zs_def)
  have "drop (length ys) (drop d zs) = drop (length ys + d) zs"
    by (simp only: drop_drop)
  then show ?thesis
    unfolding e zs_def [symmetric] n1 n2 .
qed

lemma queries_log_all:
  assumes "1 \<le> max_history hm" and "length (queries hm) \<le> nat (max_history hm)"
  shows "queries (log_all hm ms) =
           drop (length (queries hm @ ms) - nat (max_history hm)) (queries hm @ ms)
         \<and> max_history (log_all hm ms) = max_history hm"
  using assms
proof (induction ms arbitrary: hm)
  case Nil
  then show ?case by (simp add: log_all_def)
next
  case (Cons m ms)
  let ?k = "nat (max_history hm)"
  let ?hm' = "log_entry hm m"
  have k: "1 \<le> max_history ?hm'" using Cons.prems by (simp add: max_history_log_entry)
  have q: "queries ?hm' = drop (length (queries hm @ [m]) - ?k) (queries hm @ [m])"
    by (rule queries_log_entry [OF Cons.prems(1)])
  have len: "length (queries ?hm') \<le> nat (max_history ?hm')"
    unfolding q max_history_log_entry by simp
  have step: "log_all hm (m # ms) = log_all ?hm' ms" by (simp add: log_all_def)
  from Cons.IH [OF k len]
  have ih: "queries (log_all ?hm' ms) =
              drop (length (queries ?hm' @ ms) - ?k) (queries ?hm' @ ms)"
    and mh: "max_history (log_all ?hm' ms) = max_history hm"
    by (simp_all add: max_history_log_entry)
  have "drop (length (queries ?hm' @ ms) - ?k) (queries ?hm' @ ms) =
        drop (length ((queries hm @ [m]) @ ms) - ?k) ((queries hm @ [m]) @ ms)"
    unfolding q by (rule drop_drop_append) simp_all
  with ih mh step show ?case by simp
qed

text \<open>
  C6. For a capacity \<open>C \<ge> 1\<close> and a sequence of \<open>N > C\<close> metrics appended to the fresh
  store, the store holds exactly \<open>C\<close> entries, they are the last \<open>C\<close> appended, in
  insertion order, and the oldest retained entry is the \<open>(N - C + 1)\<close>-th inserted
  (index \<open>N - C\<close>, counting from 0).
\<close>

theorem log_query_fifo_eviction:
  assumes "1 \<le> C" and "nat C < length ms"
  shows "queries (log_all (HybridMetrics_init C) ms) = drop (length ms - nat C) ms
       \<and> length (queries (log_all (HybridMetrics_init C) ms)) = nat C
       \<and> hd (queries (log_all (HybridMetrics_init C) ms)) = ms ! (length ms - nat C)"
proof -
  have mh: "1 \<le> max_history (HybridMetrics_init C)"
    using assms(1) by (simp add: HybridMetrics_init_def)
  have em: "length (queries (HybridMetrics_init C)) \<le> nat (max_history (HybridMetrics_init C))"
    by (simp add: HybridMetrics_init_def)
  from queries_log_all [OF mh em, of ms]
  have q: "queries (log_all (HybridMetrics_init C) ms) = drop (length ms - nat C) ms"
    by (simp add: HybridMetrics_init_def)
  have lt: "length ms - nat C < length ms" using assms by simp
  show ?thesis
    unfolding q using assms lt by (simp add: hd_drop_conv_nth)
qed

theorem log_query_fifo_eviction_witness:
  "(1::int) \<le> 2
   \<and> nat 2 < length [sample_metric ''simple'' ''cortex'' 1, sample_metric ''simple'' ''cortex'' 2,
                     sample_metric ''simple'' ''cortex'' 3]
   \<and> queries (log_all (HybridMetrics_init 2)
        [sample_metric ''simple'' ''cortex'' 1, sample_metric ''simple'' ''cortex'' 2,
         sample_metric ''simple'' ''cortex'' 3])
       = [sample_metric ''simple'' ''cortex'' 2, sample_metric ''simple'' ''cortex'' 3]"
  using log_query_fifo_eviction [of 2 "[sample_metric ''simple'' ''cortex'' 1,
      sample_metric ''simple'' ''cortex'' 2, sample_metric ''simple'' ''cortex'' 3]"]
  by simp

subsection \<open>Recommendations\<close>

text \<open>A maximum of a non-empty sequence exists.\<close>

lemma py_max_nonempty: "xs \<noteq> [] \<Longrightarrow> \<exists>x. py_max key xs = Inr x"
  by (cases xs) simp_all

lemma dict_append_nonempty: "dict_append d k v \<noteq> []"
  by (induction d k v rule: dict_append.induct) simp_all

lemma dict_add_nonempty: "dict_add d k v \<noteq> []"
  by (induction d k v rule: dict_add.induct) simp_all

lemma slow_backends_keep:
  "d \<noteq> [] \<Longrightarrow>
   foldl (\<lambda>d q. if latency_ms q > 5000 then dict_append d (backend_m q) (latency_ms q) else d) d qs \<noteq> []"
  by (induction qs arbitrary: d) (simp_all add: dict_append_nonempty)

lemma slow_backends_nonempty:
  "\<exists>q \<in> set qs. latency_ms q > 5000 \<Longrightarrow>
   foldl (\<lambda>d q. if latency_ms q > 5000 then dict_append d (backend_m q) (latency_ms q) else d) d qs \<noteq> []"
proof (induction qs arbitrary: d)
  case Nil
  then show ?case by simp
next
  case (Cons q qs)
  show ?case
  proof (cases "latency_ms q > 5000")
    case True
    then show ?thesis
      by (simp add: slow_backends_keep dict_append_nonempty)
  next
    case False
    with Cons.prems have "\<exists>q \<in> set qs. latency_ms q > 5000" by auto
    from Cons.IH [OF this] False show ?thesis by simp
  qed
qed

lemma cost_by_backend_keep:
  "d \<noteq> [] \<Longrightarrow> foldl (\<lambda>d q. dict_add d (backend_m q) (estimated_cost_m q)) d qs \<noteq> []"
  by (induction qs arbitrary: d) (simp_all add: dict_add_nonempty)

lemma cost_by_backend_nonempty:
  "qs \<noteq> [] \<Longrightarrow> foldl (\<lambda>d q. dict_add d (backend_m q) (estimated_cost_m q)) [] qs \<noteq> []"
  by (cases qs) (simp_all add: cost_by_backend_keep dict_add_nonempty)

text \<open>A mean above 5000 needs an entry above 5000.\<close>

lemma latency_sum_bound:
  "\<forall>q \<in> set qs. latency_ms q \<le> 5000 \<Longrightarrow> sum_list (map latency_ms qs) \<le> 5000 * of_nat (length qs)"
  by (induction qs) (auto simp: algebra_simps)

lemma slow_entry_exists:
  assumes "qs \<noteq> []" and "sum_list (map latency_ms qs) / of_nat (length qs) > 5000"
  shows "\<exists>q \<in> set qs. latency_ms q > 5000"
proof (rule ccontr)
  assume "\<not> (\<exists>q \<in> set qs. latency_ms q > 5000)"
  then have "\<forall>q \<in> set qs. latency_ms q \<le> 5000" by auto
  then have "sum_list (map latency_ms qs) \<le> 5000 * of_nat (length qs)"
    by (rule latency_sum_bound)
  moreover have "(0::rat) < of_nat (length qs)" using assms(1) by simp
  ultimately have "sum_list (map latency_ms qs) / of_nat (length qs) \<le> 5000"
    by (simp add: pos_divide_le_eq)
  with assms(2) show False by simp
qed

text \<open>On a non-empty window no rule raises.\<close>

lemma rule_reliability_total: "recent \<noteq> [] \<Longrightarrow> \<exists>rs. rule_reliability recent = Inr rs"
  by (simp add: rule_reliability_def Let_def)

lemma rule_performance_total:
  assumes "recent \<noteq> []"
  shows "\<exists>rs. rule_performance recent = Inr rs"
proof (cases "sum_list (map latency_ms recent) / of_nat (length recent) > 5000")
  case True
  from slow_entry_exists [OF assms True]
  have "foldl (\<lambda>d q. if latency_ms q > 5000 then dict_append d (backend_m q) (latency_ms q) else d)
          [] recent \<noteq> []"
    by (rule slow_backends_nonempty)
  from py_max_nonempty [OF this, of mean_latency]
  obtain x where "py_max mean_latency
      (foldl (\<lambda>d q. if latency_ms q > 5000 then dict_append d (backend_m q) (latency_ms q) else d)
         [] recent) = Inr x" ..
  with assms True show ?thesis
    by (simp add: rule_performance_def Let_def)
next
  case False
  with assms show ?thesis
    by (simp add: rule_performance_def Let_def)
qed

lemma rule_cost_distribution_total:
  assumes "queries hm \<noteq> []"
  shows "\<exists>rs. rule_cost_distribution hm = Inr rs"
proof (cases "total_cost hm > 0")
  case True
  from py_max_nonempty [OF cost_by_backend_nonempty [OF assms], of snd]
  obtain x where "py_max snd
      (foldl (\<lambda>d q. dict_add d (backend_m q) (estimated_cost_m q)) [] (queries hm)) = Inr x" ..
  with True show ?thesis
    by (simp add: rule_cost_distribution_def Let_def)
next
  case False
  then show ?thesis by (simp add: rule_cost_distribution_def)
qed

lemma recent_nonempty:
  assumes "10 \<le> length qs"
  shows "(if length qs \<ge> 100 then slice_from qs (- 100) else qs) \<noteq> []"
proof (cases "length qs \<ge> 100")
  case True
  have "slice_from qs (- 100) = drop (length qs - nat 100) qs"
    by (rule slice_from_neg) simp
  with True show ?thesis by simp
next
  case False
  with assms show ?thesis by auto
qed

text \<open>
  With ten entries or more the result is the list of what the rules appended, in the
  order of the rules, or the one \<open>info\<close> entry when they appended nothing.
\<close>

lemma get_recommendations_rules:
  assumes "10 \<le> length (queries hm)"
  shows "\<exists>rest. get_recommendations hm =
           Inr (if rule_cost_optimization (queries hm) @ rest = [] then
                  [\<lparr> type = ''info'',
                      message =
                        [Lit ''No optimization opportunities identified. Current routing is efficient.''],
                      impact = [Lit ''N/A''] \<rparr>]
                else rule_cost_optimization (queries hm) @ rest)"
proof -
  let ?recent = "if length (queries hm) \<ge> 100 then slice_from (queries hm) (- 100) else queries hm"
  have ne: "?recent \<noteq> []" by (rule recent_nonempty [OF assms])
  have q: "queries hm \<noteq> []" using assms by auto
  obtain rel where rel: "rule_reliability ?recent = Inr rel"
    using rule_reliability_total [OF ne] ..
  obtain perf where perf: "rule_performance ?recent = Inr perf"
    using rule_performance_total [OF ne] ..
  obtain distr where distr: "rule_cost_distribution hm = Inr distr"
    using rule_cost_distribution_total [OF q] ..
  have "\<not> length (queries hm) < 10" using assms by simp
  then have "get_recommendations hm =
      Inr (if rule_cost_optimization (queries hm) @ (rule_data_privacy (queries hm) @ rel @ perf @ distr) = []
           then [\<lparr> type = ''info'',
                    message =
                      [Lit ''No optimization opportunities identified. Current routing is efficient.''],
                    impact = [Lit ''N/A''] \<rparr>]
           else rule_cost_optimization (queries hm) @ (rule_data_privacy (queries hm) @ rel @ perf @ distr))"
    unfolding get_recommendations_def Let_def rel perf distr
    by simp
  then show ?thesis ..
qed

text \<open>
  C7 (as stated, refuted). The claim: when at least 30 percent of the simple queries used a
  premium backend (and the store has ten entries or more), a \<open>cost_optimization\<close> entry is
  given. In a store of ten simple queries with three on Opus, exactly 30 percent, the
  only entry is the \<open>info\<close> entry: the comparison of the code is strict.
\<close>

theorem no_cost_optimization_at_30_percent:
  "length (queries store_3_of_10) = 10
   \<and> length (simple_queries (queries store_3_of_10)) = 10
   \<and> length (expensive_simple (queries store_3_of_10)) = 3
   \<and> get_recommendations store_3_of_10 =
       Inr [\<lparr> type = ''info'',
               message =
                 [Lit ''No optimization opportunities identified. Current routing is efficient.''],
               impact = [Lit ''N/A''] \<rparr>]"
  by code_simp

text \<open>
  C7 (amended). For every store with ten entries or more in which more than 30 percent of
  the simple queries used a premium backend (Opus or Sonnet), \<open>get_recommendations\<close>
  returns a list that starts with a \<open>cost_optimization\<close> entry whose impact shows 80
  percent of the summed estimated cost of those queries.
\<close>

theorem cost_optimization_above_30_percent:
  assumes "10 \<le> length (queries hm)"
    and "of_nat (length (expensive_simple (queries hm)))
           > of_nat (length (simple_queries (queries hm))) * (0.3 :: rat)"
  shows "\<exists>msg rest. get_recommendations hm =
           Inr (\<lparr> type = ''cost_optimization'', message = msg,
                  impact = [Lit ''~$'',
                            Fixed 2 (sum_list (map estimated_cost_m (expensive_simple (queries hm))) * 0.8),
                            Lit '' potential savings''] \<rparr> # rest)"
proof -
  have pos: "(0::rat) \<le> of_nat (length (simple_queries (queries hm))) * 0.3" by simp
  with assms(2) have "expensive_simple (queries hm) \<noteq> []" by auto
  then have ne: "simple_queries (queries hm) \<noteq> []"
    by (auto simp: expensive_simple_def)
  from ne assms(2) obtain msg where
    r: "rule_cost_optimization (queries hm) =
          [\<lparr> type = ''cost_optimization'', message = msg,
              impact = [Lit ''~$'',
                        Fixed 2 (sum_list (map estimated_cost_m (expensive_simple (queries hm))) * 0.8),
                        Lit '' potential savings''] \<rparr>]"
    by (simp add: rule_cost_optimization_def Let_def)
  from get_recommendations_rules [OF assms(1)] obtain rest where
    "get_recommendations hm =
       Inr (if rule_cost_optimization (queries hm) @ rest = [] then
              [\<lparr> type = ''info'',
                  message =
                    [Lit ''No optimization opportunities identified. Current routing is efficient.''],
                  impact = [Lit ''N/A''] \<rparr>]
            else rule_cost_optimization (queries hm) @ rest)" ..
  then show ?thesis unfolding r by simp
qed

theorem cost_optimization_above_30_percent_witness:
  "10 \<le> length (queries store_4_of_10)
   \<and> of_nat (length (expensive_simple (queries store_4_of_10)))
       > of_nat (length (simple_queries (queries store_4_of_10))) * (0.3 :: rat)
   \<and> (\<exists>msg rest. get_recommendations store_4_of_10 =
           Inr (\<lparr> type = ''cost_optimization'', message = msg,
                  impact = [Lit ''~$'', Fixed 2 (16 / 5), Lit '' potential savings''] \<rparr> # rest))"
proof -
  have h1: "10 \<le> length (queries store_4_of_10)" by code_simp
  have h2: "of_nat (length (expensive_simple (queries store_4_of_10)))
              > of_nat (length (simple_queries (queries store_4_of_10))) * (0.3 :: rat)"
    by code_simp
  have v: "sum_list (map estimated_cost_m (expensive_simple (queries store_4_of_10))) * 0.8 = (16 / 5 :: rat)"
    by code_simp
  from cost_optimization_above_30_percent [OF h1 h2] h1 h2 show ?thesis
    unfolding v by simp
qed

text \<open>
  C8 (as stated, refuted). The claim: with fewer than ten entries the one advisory returned
  is typed \<open>insufficient data\<close>. On the empty store the one advisory has the type
  \<open>info\<close>.
\<close>

theorem insufficient_data_type_is_info:
  "length (queries (HybridMetrics_init 10000)) < 10
   \<and> map type (projr (get_recommendations (HybridMetrics_init 10000))) = [''info'']
   \<and> map type (projr (get_recommendations (HybridMetrics_init 10000))) \<noteq> [''insufficient data'']"
  by (simp add: get_recommendations_def HybridMetrics_init_def)

text \<open>
  C8 (amended). Whenever the store holds fewer than ten metrics, \<open>get_recommendations\<close>
  returns exactly one advisory and no other: type \<open>info\<close>, message
  \<open>Need more data for recommendations\<close>, impact \<open>N/A\<close>.
\<close>

theorem few_samples_one_advisory:
  assumes "length (queries hm) < 10"
  shows "get_recommendations hm =
           Inr [\<lparr> type = ''info'',
                   message = [Lit ''Need more data for recommendations''],
                   impact = [Lit ''N/A''] \<rparr>]"
  using assms by (simp add: get_recommendations_def)

theorem few_samples_one_advisory_witness:
  "length (queries (log_all (HybridMetrics_init 10000) [sample_metric ''simple'' ''claude_opus'' 1])) < 10
   \<and> get_recommendations (log_all (HybridMetrics_init 10000) [sample_metric ''simple'' ''claude_opus'' 1]) =
           Inr [\<lparr> type = ''info'',
                   message = [Lit ''Need more data for recommendations''],
                   impact = [Lit ''N/A''] \<rparr>]"
proof -
  have h: "length (queries (log_all (HybridMetrics_init 10000) [sample_metric ''simple'' ''claude_opus'' 1])) < 10"
    by (simp add: log_all_def log_entry_def log_query_def HybridMetrics_init_def Let_def)
  from few_samples_one_advisory [OF h] h show ?thesis by simp
qed

end
